theory Spec2Isabelle
  imports Complex_Main "HOL-Library.Sublist"
begin

section \<open>Strings, runes and the standard-library helpers the engine calls\<close>

text \<open>
  A Go string is read by the engine rune by rune (\<open>range\<close>, \<open>[]rune(s)\<close>,
  \<open>utf8.RuneCountInString\<close>, \<open>strings.Fields\<close>); a well-formed UTF-8 text is modelled as
  the list of its code points. Component names (map keys) are plain ASCII strings.
  Go's \<open>int\<close> is modelled as an unbounded integer and \<open>float64\<close> as an exact rational:
  rounding of the binary representation is not modelled.
\<close>

type_synonym rune = nat
type_synonym gostring = "rune list"

text \<open>\<open>unicode.IsSpace\<close>: the White_Space property, as the Go documentation lists it.\<close>

definition isSpace :: "rune \<Rightarrow> bool" where
  "isSpace r \<longleftrightarrow>
     (0x09 \<le> r \<and> r \<le> 0x0D) \<or> r = 0x20 \<or> r = 0x85 \<or> r = 0xA0 \<or> r = 0x1680 \<or>
     (0x2000 \<le> r \<and> r \<le> 0x200A) \<or> r = 0x2028 \<or> r = 0x2029 \<or> r = 0x202F \<or>
     r = 0x205F \<or> r = 0x3000"

text \<open>
  \<open>unicode.IsDigit\<close> and \<open>unicode.IsPunct\<close> are range tables of the Unicode database
  (categories Nd and P) that are not part of the repository; every function that consults
  them takes them as a parameter.
\<close>

record unicode_tables =
  IsDigit :: "rune \<Rightarrow> bool"
  IsPunct :: "rune \<Rightarrow> bool"

text \<open>The two tables restricted to U+0000..U+007F, used to run the code on ASCII and CJK
  examples (no CJK ideograph is a digit or a punctuation mark).\<close>

definition ascii_tables :: unicode_tables where
  "ascii_tables =
     \<lparr> IsDigit = (\<lambda>r. 0x30 \<le> r \<and> r \<le> 0x39),
       IsPunct = (\<lambda>r. r \<in> {0x21, 0x22, 0x23, 0x25, 0x26, 0x27, 0x28, 0x29, 0x2A, 0x2C,
                              0x2D, 0x2E, 0x2F, 0x3A, 0x3B, 0x3F, 0x40, 0x5B, 0x5C, 0x5D,
                              0x5F, 0x7B, 0x7D}) \<rparr>"

text \<open>\<open>strings.Fields\<close>: the maximal runs of non-space runes, in order.\<close>

fun fields_from :: "gostring \<Rightarrow> gostring \<Rightarrow> gostring list" where
  "fields_from w [] = (if w = [] then [] else [w])"
| "fields_from w (r # rs) =
     (if isSpace r then (if w = [] then fields_from [] rs else w # fields_from [] rs)
      else fields_from (w @ [r]) rs)"

definition Fields :: "gostring \<Rightarrow> gostring list" where
  "Fields s = fields_from [] s"

text \<open>\<open>strings.Split(s, "\n")\<close>: the pieces between newlines; always at least one piece.\<close>

fun split_from :: "gostring \<Rightarrow> gostring \<Rightarrow> gostring list" where
  "split_from cur [] = [cur]"
| "split_from cur (r # rs) =
     (if r = 0x0A then cur # split_from [] rs else split_from (cur @ [r]) rs)"

definition SplitLines :: "gostring \<Rightarrow> gostring list" where
  "SplitLines s = split_from [] s"

text \<open>\<open>strings.Join\<close>.\<close>

fun Join :: "gostring list \<Rightarrow> gostring \<Rightarrow> gostring" where
  "Join [] sep = []"
| "Join [x] sep = x"
| "Join (x # y # ys) sep = x @ sep @ Join (y # ys) sep"

text \<open>\<open>strings.TrimSpace\<close>.\<close>

definition TrimSpace :: "gostring \<Rightarrow> gostring" where
  "TrimSpace s = rev (dropWhile isSpace (rev (dropWhile isSpace s)))"

text \<open>The conversion \<open>int(x)\<close> of a float: truncation toward zero.\<close>

definition go_int :: "rat \<Rightarrow> int" where
  "go_int x = (if 0 \<le> x then \<lfloor>x\<rfloor> else \<lceil>x\<rceil>)"

section \<open>Token estimator (\<open>SimpleTokenCounter\<close>)\<close>

record SimpleTokenCounter =
  chineseToTokenRatio :: rat
  englishToTokenRatio :: rat

definition NewSimpleTokenCounter :: SimpleTokenCounter where
  "NewSimpleTokenCounter = \<lparr> chineseToTokenRatio = 3 / 2, englishToTokenRatio = 3 / 4 \<rparr>"

definition isChinese :: "rune \<Rightarrow> bool" where
  "isChinese r \<longleftrightarrow>
     (0x4e00 \<le> r \<and> r \<le> 0x9fff) \<or> (0x3400 \<le> r \<and> r \<le> 0x4dbf) \<or>
     (0x20000 \<le> r \<and> r \<le> 0x2a6df) \<or> (0x2a700 \<le> r \<and> r \<le> 0x2b73f) \<or>
     (0x2b740 \<le> r \<and> r \<le> 0x2b81f) \<or> (0x2b820 \<le> r \<and> r \<le> 0x2ceaf) \<or>
     (0x2ceb0 \<le> r \<and> r \<le> 0x2ebef)"

definition isChineseWord :: "gostring \<Rightarrow> bool" where
  "isChineseWord word \<longleftrightarrow>
     (let chineseCount = int (length (filter isChinese word));
          totalCount = int (length word)
      in (of_int chineseCount :: rat) / of_int totalCount > 1 / 2)"

definition isNumberWord :: "unicode_tables \<Rightarrow> gostring \<Rightarrow> bool" where
  "isNumberWord U word \<longleftrightarrow>
     (let digitCount = int (length (filter (IsDigit U) word));
          totalCount = int (length word)
      in (of_int digitCount :: rat) / of_int totalCount > 7 / 10)"

text \<open>The four running counters of \<open>Count\<close>'s loop over the words.\<close>

record tally =
  chineseChars :: int
  englishWords :: int
  numbers :: int
  punctuation :: int

definition count_word :: "unicode_tables \<Rightarrow> gostring \<Rightarrow> tally \<Rightarrow> tally" where
  "count_word U word t =
     (if isChineseWord word then t\<lparr>chineseChars := chineseChars t + int (length word)\<rparr>
      else if isNumberWord U word then t\<lparr>numbers := numbers t + 1\<rparr>
      else t\<lparr>englishWords := englishWords t + 1,
              punctuation := punctuation t + int (length (filter (IsPunct U) word))\<rparr>)"

definition Count :: "unicode_tables \<Rightarrow> SimpleTokenCounter \<Rightarrow> gostring \<Rightarrow> int" where
  "Count U c s =
     (if s = [] then 0
      else let t = fold (count_word U) (Fields s)
                     \<lparr>chineseChars = 0, englishWords = 0, numbers = 0, punctuation = 0\<rparr>
           in go_int (of_int (chineseChars t) * chineseToTokenRatio c) +
              go_int (of_int (englishWords t) * englishToTokenRatio c) +
              numbers t div 2 + punctuation t div 3)"

text \<open>The estimator as the specification words it: one contribution per whitespace-delimited
  token, summed, then a single floor.\<close>

definition spec_contribution :: "unicode_tables \<Rightarrow> gostring \<Rightarrow> rat" where
  "spec_contribution U word =
     (if isChineseWord word then of_nat (length word) * (3 / 2)
      else if isNumberWord U word then 1 / 2
      else 3 / 4 + (33 / 100) * of_nat (length (filter (IsPunct U) word)))"

definition spec_estimate :: "unicode_tables \<Rightarrow> gostring \<Rightarrow> int" where
  "spec_estimate U s = \<lfloor>sum_list (map (spec_contribution U) (Fields s))\<rfloor>"

section \<open>Budget allocator (\<open>TokenBudget\<close>)\<close>

text \<open>The \<open>map[string]float64\<close> of percentages is an association list with one entry per
  component; iteration order is the list order (the results below do not depend on it).\<close>

record TokenBudget =
  Total :: int
  Used :: int
  Remaining :: int
  Percentages :: "(string \<times> rat) list"

definition NewTokenBudget :: "int \<Rightarrow> (string \<times> rat) list \<Rightarrow> TokenBudget" where
  "NewTokenBudget n ps = \<lparr> Total = n, Used = 0, Remaining = n, Percentages = ps \<rparr>"

text \<open>First loop of \<open>AllocateTokens\<close>: \<open>int(float64(Total)*percentage + 0.999)\<close> per component.\<close>

definition initialAllocation :: "TokenBudget \<Rightarrow> (string \<times> int) list" where
  "initialAllocation tb =
     map (\<lambda>(component, percentage).
            (component, go_int (of_int (Total tb) * percentage + 999 / 1000)))
         (Percentages tb)"

definition AllocateTokens :: "TokenBudget \<Rightarrow> (string \<times> int) list" where
  "AllocateTokens tb =
     (let allocation = initialAllocation tb;
          totalAllocated = sum_list (map snd allocation)
      in if totalAllocated > Total tb
         then let ratio = (of_int (Total tb) :: rat) / of_int totalAllocated
              in map (\<lambda>(component, tokens).
                        (component,
                         let adjusted = go_int (of_int tokens * ratio)
                         in if adjusted < 1 then 1 else adjusted))
                     allocation
         else allocation)"

section \<open>Budget manager (\<open>TokenBudgetManager\<close>)\<close>

datatype error =
    PercentagesSumError rat
  | NegativePercentageError
  | MaxTokensNotPositive
  | FileNotFoundError
  | FileReadError
  | FileWriteError

record TokenPercentages =
  Plan :: rat
  Character :: rat
  Worldview :: rat
  Chapters :: rat
  Index :: rat

definition DefaultTokenPercentages :: TokenPercentages where
  "DefaultTokenPercentages =
     \<lparr> Plan = 15 / 100, Character = 10 / 100, Worldview = 10 / 100,
       Chapters = 60 / 100, Index = 5 / 100 \<rparr>"

definition Validate :: "TokenPercentages \<Rightarrow> error option" where
  "Validate tp =
     (let sum = Plan tp + Character tp + Worldview tp + Chapters tp + Index tp
      in if \<bar>sum - 1\<bar> > 1 / 100 then Some (PercentagesSumError sum)
         else if Plan tp < 0 \<or> Character tp < 0 \<or> Worldview tp < 0 \<or> Chapters tp < 0 \<or>
                 Index tp < 0
         then Some NegativePercentageError
         else None)"

definition ToMap :: "TokenPercentages \<Rightarrow> (string \<times> rat) list" where
  "ToMap tp =
     [(''plan'', Plan tp), (''character'', Character tp), (''worldview'', Worldview tp),
      (''chapters'', Chapters tp), (''index'', Index tp)]"

record TokenBudgetManager =
  maxTokens :: int
  percentages :: TokenPercentages
  counter :: SimpleTokenCounter
  budget :: TokenBudget

text \<open>\<open>NewTokenBudgetManager\<close>; a nil \<open>percentages\<close> argument is \<open>None\<close>.\<close>

definition NewTokenBudgetManager ::
    "int \<Rightarrow> TokenPercentages option \<Rightarrow> error + TokenBudgetManager" where
  "NewTokenBudgetManager mt popt =
     (if mt \<le> 0 then Inl MaxTokensNotPositive
      else let p = (case popt of None \<Rightarrow> DefaultTokenPercentages | Some q \<Rightarrow> q)
           in case Validate p of
                Some err \<Rightarrow> Inl err
              | None \<Rightarrow>
                  Inr \<lparr> maxTokens = mt, percentages = p, counter = NewSimpleTokenCounter,
                        budget = NewTokenBudget mt (ToMap p) \<rparr>)"

definition GetAllocatedTokens :: "TokenBudgetManager \<Rightarrow> (string \<times> int) list" where
  "GetAllocatedTokens tbm = AllocateTokens (budget tbm)"

definition GetTokenAllocation :: "TokenBudgetManager \<Rightarrow> string \<Rightarrow> int" where
  "GetTokenAllocation tbm component =
     (case map_of (GetAllocatedTokens tbm) component of
        Some tokens \<Rightarrow> tokens
      | None \<Rightarrow> 0)"

section \<open>Bounded truncator\<close>

text \<open>The word loop shared by \<open>truncateLineByTokens\<close> and \<open>truncateLineByWords\<close>:
  append words while the running sum of their own estimates stays within the limit,
  stop at the first word that would overflow.\<close>

fun words_loop ::
    "unicode_tables \<Rightarrow> SimpleTokenCounter \<Rightarrow> int \<Rightarrow> gostring list \<Rightarrow> gostring list \<Rightarrow> int
     \<Rightarrow> gostring list" where
  "words_loop U c limit [] result totalTokens = result"
| "words_loop U c limit (word # ws) result totalTokens =
     (let wordTokens = Count U c word
      in if totalTokens + wordTokens > limit then result
         else words_loop U c limit ws (result @ [word]) (totalTokens + wordTokens))"

definition truncateLineByTokens ::
    "unicode_tables \<Rightarrow> TokenBudgetManager \<Rightarrow> gostring \<Rightarrow> int \<Rightarrow> gostring" where
  "truncateLineByTokens U tbm line mt =
     (if mt \<le> 0 then []
      else Join (words_loop U (counter tbm) mt (Fields line) [] 0) [0x20])"

text \<open>The line loop shared by \<open>truncateText\<close> and \<open>simpleTokenTruncate\<close>; the two differ
  only in the function \<open>shorten\<close> they call on the first overflowing line.\<close>

fun lines_loop ::
    "unicode_tables \<Rightarrow> SimpleTokenCounter \<Rightarrow> (gostring \<Rightarrow> int \<Rightarrow> gostring) \<Rightarrow> int \<Rightarrow>
     gostring list \<Rightarrow> gostring list \<Rightarrow> int \<Rightarrow> gostring list \<times> int" where
  "lines_loop U c shorten limit [] result totalTokens = (result, totalTokens)"
| "lines_loop U c shorten limit (line # rest) result totalTokens =
     (let lineTokens = Count U c line
      in if totalTokens + lineTokens > limit
         then (if totalTokens < limit
               then (let remainingTokens = limit - totalTokens;
                         truncatedLine = shorten line remainingTokens
                     in if truncatedLine \<noteq> []
                        then (result @ [truncatedLine], totalTokens + Count U c truncatedLine)
                        else (result, totalTokens))
               else (result, totalTokens))
         else lines_loop U c shorten limit rest (result @ [line]) (totalTokens + lineTokens))"

definition truncateText ::
    "unicode_tables \<Rightarrow> TokenBudgetManager \<Rightarrow> gostring \<Rightarrow> int \<Rightarrow> gostring \<times> int" where
  "truncateText U tbm s mt =
     (let (result, totalTokens) =
            lines_loop U (counter tbm) (truncateLineByTokens U tbm) mt (SplitLines s) [] 0
      in (Join result [0x0A], totalTokens))"

definition TruncateToTokenLimit ::
    "unicode_tables \<Rightarrow> TokenBudgetManager \<Rightarrow> gostring \<Rightarrow> string \<Rightarrow> gostring \<times> int" where
  "TruncateToTokenLimit U tbm s component =
     (if s = [] then ([], 0)
      else let mt = GetTokenAllocation tbm component
           in if mt \<le> 0 then ([], 0)
              else let currentTokens = Count U (counter tbm) s
                   in if currentTokens \<le> mt then (s, currentTokens)
                      else truncateText U tbm s mt)"

text \<open>A manager as \<open>NewTokenBudgetManager(100, nil)\<close> builds it, for running the code on
  examples.\<close>

definition manager100 :: TokenBudgetManager where
  "manager100 =
     \<lparr> maxTokens = 100, percentages = DefaultTokenPercentages, counter = NewSimpleTokenCounter,
       budget = NewTokenBudget 100 (ToMap DefaultTokenPercentages) \<rparr>"

section \<open>Content store (\<open>BaseFileManager\<close>)\<close>

text \<open>
  Durable storage is outside the engine. One \<open>storage\<close> value describes the blob at a
  manager's \<open>filePath\<close> at the moment of a call: its bytes and modification time (absent
  when \<open>os.Stat\<close> fails), whether \<open>os.ReadFile\<close>, \<open>os.MkdirAll\<close> and \<open>os.WriteFile\<close>
  would fail, and the modification time the file system stamps on the next write.
  Times are counted from Go's zero \<open>time.Time\<close>, the initial value of \<open>lastModTime\<close>.
\<close>

type_synonym modtime = nat

record storage =
  blob :: "(gostring \<times> modtime) option"
  readFails :: bool
  mkdirFails :: bool
  writeFails :: bool
  clock :: modtime

record BaseFileManager =
  filePath :: string
  current :: gostring
  lastModTime :: modtime
  tokenCounter :: SimpleTokenCounter
  tokenBudget :: "TokenBudgetManager option"

definition NewBaseFileManager :: "string \<Rightarrow> BaseFileManager" where
  "NewBaseFileManager path =
     \<lparr> filePath = path, current = [], lastModTime = 0,
       tokenCounter = NewSimpleTokenCounter, tokenBudget = None \<rparr>"

definition Stat :: "storage \<Rightarrow> modtime option" where
  "Stat st = map_option snd (blob st)"

definition Exists :: "storage \<Rightarrow> bool" where
  "Exists st \<longleftrightarrow> Stat st \<noteq> None"

text \<open>Every operation returns its result together with the manager as the call leaves it.\<close>

definition Load :: "BaseFileManager \<Rightarrow> storage \<Rightarrow> (error + gostring) \<times> BaseFileManager" where
  "Load bfm st =
     (if \<not> Exists st then (Inl FileNotFoundError, bfm)
      else case blob st of
             None \<Rightarrow> (Inl FileReadError, bfm)
           | Some (data, _) \<Rightarrow>
               if readFails st then (Inl FileReadError, bfm)
               else let content = TrimSpace data;
                        bfm1 = bfm\<lparr>current := content\<rparr>;
                        bfm2 = (case Stat st of
                                  Some t \<Rightarrow> bfm1\<lparr>lastModTime := t\<rparr>
                                | None \<Rightarrow> bfm1)
                    in (Inr content, bfm2))"

definition Save ::
    "BaseFileManager \<Rightarrow> storage \<Rightarrow> gostring \<Rightarrow> error option \<times> BaseFileManager \<times> storage" where
  "Save bfm st content =
     (if mkdirFails st then (Some FileWriteError, bfm, st)
      else if writeFails st then (Some FileWriteError, bfm, st)
      else let st1 = st\<lparr>blob := Some (content, clock st)\<rparr>;
               bfm1 = bfm\<lparr>current := content\<rparr>;
               bfm2 = (case Stat st1 of
                         Some t \<Rightarrow> bfm1\<lparr>lastModTime := t\<rparr>
                       | None \<Rightarrow> bfm1)
           in (None, bfm2, st1))"

definition GetModTime :: "storage \<Rightarrow> error + modtime" where
  "GetModTime st = (case Stat st of None \<Rightarrow> Inl FileNotFoundError | Some t \<Rightarrow> Inr t)"

definition IsModified :: "BaseFileManager \<Rightarrow> storage \<Rightarrow> bool" where
  "IsModified bfm st =
     (case GetModTime st of
        Inl _ \<Rightarrow> False
      | Inr modTime \<Rightarrow> modTime > lastModTime bfm)"

definition GetCurrent :: "BaseFileManager \<Rightarrow> storage \<Rightarrow> gostring \<times> BaseFileManager" where
  "GetCurrent bfm st =
     (if IsModified bfm st \<or> current bfm = []
      then (case Load bfm st of
              (Inr content, bfm1) \<Rightarrow> (content, bfm1)
            | (Inl _, bfm1) \<Rightarrow> (current bfm1, bfm1))
      else (current bfm, bfm))"

definition Update ::
    "BaseFileManager \<Rightarrow> storage \<Rightarrow> gostring \<Rightarrow> error option \<times> BaseFileManager \<times> storage" where
  "Update bfm st content = Save bfm st content"

definition SetTokenBudget :: "BaseFileManager \<Rightarrow> TokenBudgetManager \<Rightarrow> BaseFileManager" where
  "SetTokenBudget bfm b = bfm\<lparr>tokenBudget := Some b\<rparr>"

text \<open>\<open>truncateLineByCharacters\<close>: the binary search over the number of runes kept.\<close>

function char_search ::
    "unicode_tables \<Rightarrow> SimpleTokenCounter \<Rightarrow> gostring \<Rightarrow> int \<Rightarrow> nat \<Rightarrow> nat \<Rightarrow> nat \<Rightarrow> nat" where
  "char_search U c runes limit left right bestEnd =
     (if left \<le> right
      then (if (left + right) div 2 = 0
            then char_search U c runes limit ((left + right) div 2 + 1) right bestEnd
            else if Count U c (take ((left + right) div 2) runes) \<le> limit
                 then char_search U c runes limit ((left + right) div 2 + 1) right
                        ((left + right) div 2)
                 else char_search U c runes limit left ((left + right) div 2 - 1) bestEnd)
      else bestEnd)"
  by pat_completeness auto
termination
  by (relation "measure (\<lambda>(U, c, runes, limit, left, right, bestEnd). right + 1 - left)") auto

definition truncateLineByCharacters ::
    "unicode_tables \<Rightarrow> BaseFileManager \<Rightarrow> gostring \<Rightarrow> int \<Rightarrow> gostring" where
  "truncateLineByCharacters U bfm line limit =
     (if limit \<le> 0 then []
      else let runes = line;
               bestEnd = char_search U (tokenCounter bfm) runes limit 0 (length runes) 0
           in if bestEnd = 0 then [] else take bestEnd runes)"

definition truncateLineByWords ::
    "unicode_tables \<Rightarrow> BaseFileManager \<Rightarrow> gostring \<Rightarrow> int \<Rightarrow> gostring" where
  "truncateLineByWords U bfm line limit =
     (if limit \<le> 0 then []
      else let ws = Fields line
           in if length ws > 1
              then (let result = words_loop U (tokenCounter bfm) limit ws [] 0
                    in if length result > 0 then Join result [0x20]
                       else truncateLineByCharacters U bfm line limit)
              else truncateLineByCharacters U bfm line limit)"

definition simpleTokenTruncate ::
    "unicode_tables \<Rightarrow> BaseFileManager \<Rightarrow> gostring \<Rightarrow> int \<Rightarrow> gostring \<times> int" where
  "simpleTokenTruncate U bfm s limit =
     (if limit \<le> 0 then ([], 0)
      else let (result, totalTokens) =
                 lines_loop U (tokenCounter bfm) (truncateLineByWords U bfm) limit
                   (SplitLines s) [] 0
           in (Join result [0x0A], totalTokens))"

definition TruncateToLimit ::
    "unicode_tables \<Rightarrow> BaseFileManager \<Rightarrow> gostring \<Rightarrow> int \<Rightarrow> gostring \<times> int" where
  "TruncateToLimit U bfm s limit =
     (case tokenBudget bfm of
        Some tb \<Rightarrow> TruncateToTokenLimit U tb s ''default''
      | None \<Rightarrow>
          let currentTokens = Count U (tokenCounter bfm) s
          in if currentTokens \<le> limit then (s, currentTokens)
             else simpleTokenTruncate U bfm s limit)"

section \<open>Index reader (\<open>IndexReader\<close>)\<close>

text \<open>Of \<open>ChapterSummary\<close> and \<open>IndexJSON\<close> only the fields the summary text is built from
  are kept. \<open>json.Unmarshal\<close> is a parameter \<open>decode\<close>; it yields \<open>None\<close> on a parse error.\<close>

record ChapterSummary =
  ChapterID :: gostring
  Title :: gostring
  Summary :: gostring

record IndexJSON =
  Summaries :: "ChapterSummary list"

record IndexReader =
  base :: BaseFileManager
  indexData :: "IndexJSON option"

definition load ::
    "(gostring \<Rightarrow> IndexJSON option) \<Rightarrow> IndexReader \<Rightarrow> storage \<Rightarrow> IndexReader" where
  "load decode ir st =
     (case Load (base ir) st of
        (Inr content, b) \<Rightarrow>
          if content \<noteq> []
          then (case decode content of
                  Some d \<Rightarrow> ir\<lparr>base := b, indexData := Some d\<rparr>
                | None \<Rightarrow> ir\<lparr>base := b\<rparr>)
          else ir\<lparr>base := b\<rparr>
      | (Inl _, b) \<Rightarrow> ir\<lparr>base := b\<rparr>)"

definition no_summaries :: "IndexReader \<Rightarrow> bool" where
  "no_summaries ir \<longleftrightarrow>
     (case indexData ir of None \<Rightarrow> True | Some d \<Rightarrow> length (Summaries d) = 0)"

definition summary_text :: "IndexReader \<Rightarrow> gostring" where
  "summary_text ir =
     (case indexData ir of
        None \<Rightarrow> []
      | Some d \<Rightarrow>
          Join (map (\<lambda>chapterSummary. ChapterID chapterSummary @ [0x3A, 0x20] @
                                        Summary chapterSummary)
                    (Summaries d))
               [0x0A, 0x0A])"

definition GetSummary ::
    "(gostring \<Rightarrow> IndexJSON option) \<Rightarrow> IndexReader \<Rightarrow> storage \<Rightarrow> gostring \<times> IndexReader" where
  "GetSummary decode ir st =
     (if no_summaries ir
      then (let ir1 = load decode ir st
            in if no_summaries ir1 then ([], ir1) else (summary_text ir1, ir1))
      else (summary_text ir, ir))"

definition GetSummaryWithTokenLimit ::
    "unicode_tables \<Rightarrow> (gostring \<Rightarrow> IndexJSON option) \<Rightarrow> IndexReader \<Rightarrow> storage \<Rightarrow> int \<Rightarrow>
     (gostring \<times> int) \<times> IndexReader" where
  "GetSummaryWithTokenLimit U decode ir st mt =
     (let (summary, ir1) = GetSummary decode ir st
      in if summary = [] then (([], 0), ir1)
         else (TruncateToLimit U (base ir1) summary mt, ir1))"

text \<open>A second example manager, as \<open>NewTokenBudgetManager(n, &TokenPercentages{Plan: 0.5,
  Chapters: 0.5})\<close> builds it for \<open>n > 0\<close>: half of the budget for the plan, half for the
  chapters, nothing for the other three components.\<close>

definition halves :: TokenPercentages where
  "halves = \<lparr> Plan = 1 / 2, Character = 0, Worldview = 0, Chapters = 1 / 2, Index = 0 \<rparr>"

definition manager_halves :: "int \<Rightarrow> TokenBudgetManager" where
  "manager_halves n =
     \<lparr> maxTokens = n, percentages = halves, counter = NewSimpleTokenCounter,
       budget = NewTokenBudget n (ToMap halves) \<rparr>"



text \<open>The CJK scenario of the specification: a four-ideograph phrase repeated 300 times,
  1200 code points without any whitespace.\<close>

definition cjk_phrase :: gostring where
  "cjk_phrase = [0x4E00, 0x4E8C, 0x4E09, 0x56DB]"

definition cjk_text :: gostring where
  "cjk_text = concat (replicate 300 cjk_phrase)"

text \<open>A manager whose cache holds \<open>"old"\<close>, loaded at time 1, and three states of its file:
  rewritten from outside to \<open>"new\n"\<close> at time 2; the same but unreadable; and a location
  that refuses writes.\<close>

definition cached_old :: BaseFileManager where
  "cached_old = (NewBaseFileManager ''worldview.md'')
                   \<lparr>current := [0x6F, 0x6C, 0x64], lastModTime := 1\<rparr>"

definition storage_new :: storage where
  "storage_new = \<lparr> blob = Some ([0x6E, 0x65, 0x77, 0x0A], 2), readFails = False,
                    mkdirFails = False, writeFails = False, clock = 3 \<rparr>"

definition storage_unreadable :: storage where
  "storage_unreadable = storage_new\<lparr>readFails := True\<rparr>"

definition storage_readonly :: storage where
  "storage_readonly = storage_new\<lparr>writeFails := True\<rparr>"

section \<open>Assembler (\<open>ContextBuilder\<close>)\<close>

















section \<open>Properties of the estimator\<close>

lemma Fields_Nil: "Fields [] = []"
  by (simp add: Fields_def)

lemma go_int_nonneg: "0 \<le> x \<Longrightarrow> go_int x = \<lfloor>x\<rfloor>"
  by (simp add: go_int_def)

lemma floor_rat_numeral: "\<lfloor>numeral a / numeral b :: rat\<rfloor> = numeral a div numeral b"
  by (metis floor_divide_of_int_eq of_int_numeral)

lemma go_int_numeral: "go_int (numeral a / numeral b) = numeral a div numeral b"
  by (simp add: go_int_def floor_rat_numeral)

lemma fold_count_word:
  "fold (count_word U) ws t =
     \<lparr> chineseChars = chineseChars t + int (sum_list (map length (filter isChineseWord ws))),
       englishWords = englishWords t +
          int (length (filter (\<lambda>w. \<not> isChineseWord w \<and> \<not> isNumberWord U w) ws)),
       numbers = numbers t +
          int (length (filter (\<lambda>w. \<not> isChineseWord w \<and> isNumberWord U w) ws)),
       punctuation = punctuation t +
          int (sum_list (map (\<lambda>w. length (filter (IsPunct U) w))
                 (filter (\<lambda>w. \<not> isChineseWord w \<and> \<not> isNumberWord U w) ws))) \<rparr>"
  by (induction ws arbitrary: t) (simp_all add: count_word_def)

text \<open>
  Claim C6 (as amended). The estimate of a text is the sum of four separately rounded
  terms: the floor of 1.5 times the total number of code points of the CJK-dominant tokens,
  the floor of 0.75 times the number of tokens that are neither CJK-dominant nor
  numeric-dominant, the number of numeric-dominant tokens halved by integer division,
  and the number of punctuation code points inside the remaining tokens divided by three
  with integer division. Each class is floored on its own; there is no single floor of
  the total.
\<close>

theorem Count_formula:
  "Count U NewSimpleTokenCounter s =
     \<lfloor>(3 / 2 :: rat) * of_nat (sum_list (map length (filter isChineseWord (Fields s))))\<rfloor> +
     \<lfloor>(3 / 4 :: rat) *
        of_nat (length (filter (\<lambda>w. \<not> isChineseWord w \<and> \<not> isNumberWord U w) (Fields s)))\<rfloor> +
     int (length (filter (\<lambda>w. \<not> isChineseWord w \<and> isNumberWord U w) (Fields s))) div 2 +
     int (sum_list (map (\<lambda>w. length (filter (IsPunct U) w))
            (filter (\<lambda>w. \<not> isChineseWord w \<and> \<not> isNumberWord U w) (Fields s)))) div 3"
proof (cases "s = []")
  case True
  then show ?thesis by (simp add: Count_def Fields_Nil)
next
  case False
  then show ?thesis
    by (simp add: Count_def fold_count_word NewSimpleTokenCounter_def go_int_nonneg mult.commute)
qed

text \<open>The formula at the text \<open>"a 1"\<close>: one Latin token and one numeric token.\<close>

theorem Count_formula_witness:
  "Count ascii_tables NewSimpleTokenCounter [0x61, 0x20, 0x31] =
     \<lfloor>(3 / 2 :: rat) * of_nat (0 :: nat)\<rfloor> + \<lfloor>(3 / 4 :: rat) * of_nat (1 :: nat)\<rfloor> +
     int 1 div 2 + int 0 div 3"
proof -
  have f: "Fields [0x61, 0x20, 0x31] = [[0x61], [0x31]]"
    by (simp add: Fields_def isSpace_def)
  have c1: "\<not> isChineseWord [0x61]"
    by (simp add: isChineseWord_def isChinese_def)
  have c2: "\<not> isChineseWord [0x31]"
    by (simp add: isChineseWord_def isChinese_def)
  have c3: "\<not> isNumberWord ascii_tables [0x61]"
    by (simp add: isNumberWord_def ascii_tables_def)
  have c4: "isNumberWord ascii_tables [0x31]"
    by (simp add: isNumberWord_def ascii_tables_def)
  have c5: "\<not> IsPunct ascii_tables 0x61"
    by (simp add: ascii_tables_def)
  note c = c1 c2 c3 c4 c5
  show ?thesis
    using Count_formula [of ascii_tables "[0x61, 0x20, 0x31]"] by (simp add: f c)
qed

text \<open>
  Counterexample to claim C6 as stated: on \<open>"a 1"\<close> the code returns 0
  (\<open>int(0.75) + 1/2\<close>), while a single floor of the summed contributions
  \<open>0.75 + 0.5\<close> gives 1.
\<close>

theorem Count_single_floor_counterexample:
  "Count ascii_tables NewSimpleTokenCounter [0x61, 0x20, 0x31] = 0 \<and>
   spec_estimate ascii_tables [0x61, 0x20, 0x31] = 1"
proof -
  have f: "Fields [0x61, 0x20, 0x31] = [[0x61], [0x31]]"
    by (simp add: Fields_def isSpace_def)
  have c1: "\<not> isChineseWord [0x61]"
    by (simp add: isChineseWord_def isChinese_def)
  have c2: "\<not> isChineseWord [0x31]"
    by (simp add: isChineseWord_def isChinese_def)
  have c3: "\<not> isNumberWord ascii_tables [0x61]"
    by (simp add: isNumberWord_def ascii_tables_def)
  have c4: "isNumberWord ascii_tables [0x31]"
    by (simp add: isNumberWord_def ascii_tables_def)
  have c5: "\<not> IsPunct ascii_tables 0x61"
    by (simp add: ascii_tables_def)
  have a: "Count ascii_tables NewSimpleTokenCounter [0x61, 0x20, 0x31] = 0"
    by (simp add: Count_def f count_word_def c1 c2 c3 c4 c5 NewSimpleTokenCounter_def
        go_int_def floor_rat_numeral)
  have b: "spec_estimate ascii_tables [0x61, 0x20, 0x31] = 1"
    by (simp add: spec_estimate_def spec_contribution_def f c1 c2 c3 c4 c5 floor_rat_numeral)
  show ?thesis using a b by simp
qed


section \<open>Properties of the truncator\<close>

lemma fields_from_nonempty: "x \<in> set (fields_from w s) \<Longrightarrow> x \<noteq> []"
  by (induction s arbitrary: w) (auto split: if_splits)

lemma Fields_nonempty: "x \<in> set (Fields s) \<Longrightarrow> x \<noteq> []"
  unfolding Fields_def by (rule fields_from_nonempty)

lemma Join_eq_Nil: "Join ws sep = [] \<Longrightarrow> ws = [] \<or> hd ws = []"
  by (induction ws sep rule: Join.induct) auto













lemmas count_eval = Count_def count_word_def isChineseWord_def isNumberWord_def isChinese_def
  NewSimpleTokenCounter_def go_int_def floor_rat_numeral ascii_tables_def





section \<open>Properties of the budget manager\<close>



lemma NewTokenBudgetManager_default: "NewTokenBudgetManager 100 None = Inr manager100"
  by (simp add: NewTokenBudgetManager_def manager100_def Validate_def DefaultTokenPercentages_def
      Let_def)

lemma NewTokenBudgetManager_halves:
  "0 < n \<Longrightarrow> NewTokenBudgetManager n (Some halves) = Inr (manager_halves n)"
  by (simp add: NewTokenBudgetManager_def manager_halves_def Validate_def halves_def Let_def)

lemma initialAllocation_keys: "map fst (initialAllocation tb) = map fst (Percentages tb)"
  by (simp add: initialAllocation_def split_def comp_def)

lemma AllocateTokens_keys: "map fst (AllocateTokens tb) = map fst (Percentages tb)"
  by (simp add: AllocateTokens_def Let_def split_def comp_def initialAllocation_keys[symmetric])

lemma manager_keys:
  assumes "NewTokenBudgetManager mt popt = Inr tbm"
  shows "map fst (GetAllocatedTokens tbm) =
           [''plan'', ''character'', ''worldview'', ''chapters'', ''index'']"
  using assms
  by (auto simp: NewTokenBudgetManager_def GetAllocatedTokens_def AllocateTokens_keys
      NewTokenBudget_def ToMap_def Let_def split: if_splits option.splits)

lemma default_allocation:
  assumes "NewTokenBudgetManager mt popt = Inr tbm"
  shows "GetTokenAllocation tbm ''default'' = 0"
proof -
  have "''default'' \<notin> set (map fst (GetAllocatedTokens tbm))"
    by (simp add: manager_keys[OF assms])
  then have "map_of (GetAllocatedTokens tbm) ''default'' = None"
    by (simp add: map_of_eq_None_iff)
  then show ?thesis by (simp add: GetTokenAllocation_def)
qed

lemma Load_tokenBudget: "tokenBudget (snd (Load bfm st)) = tokenBudget bfm"
  by (simp add: Load_def Let_def split: option.splits prod.splits)

lemma load_tokenBudget: "tokenBudget (base (load decode ir st)) = tokenBudget (base ir)"
  using Load_tokenBudget[of "base ir" st]
  by (auto simp: load_def split: prod.splits sum.splits option.splits)

lemma GetSummary_tokenBudget:
  "tokenBudget (base (snd (GetSummary decode ir st))) = tokenBudget (base ir)"
  by (simp add: GetSummary_def Let_def load_tokenBudget)

text \<open>
  Claim C10. A budget manager built by \<open>NewTokenBudgetManager\<close> allocates to exactly the
  five components of \<open>ToMap\<close>, so the component name \<open>"default"\<close> resolves to 0 and
  \<open>TruncateToTokenLimit\<close> under that name returns the empty string and 0 tokens for every
  text. Hence a file manager with that budget attached returns \<open>("", 0)\<close> from
  \<open>TruncateToLimit\<close> whatever the text and the ceiling argument, and so does
  \<open>IndexReader.GetSummaryWithTokenLimit\<close> for every summary and every ceiling.
\<close>

theorem default_component_truncates_to_nothing:
  assumes "NewTokenBudgetManager mt popt = Inr tbm"
  shows "GetTokenAllocation tbm ''default'' = 0 \<and>
         TruncateToTokenLimit U tbm s ''default'' = ([], 0) \<and>
         (tokenBudget bfm = Some tbm \<longrightarrow> TruncateToLimit U bfm s limit = ([], 0)) \<and>
         (tokenBudget (base ir) = Some tbm \<longrightarrow>
            fst (GetSummaryWithTokenLimit U decode ir st limit) = ([], 0))"
proof -
  have a: "GetTokenAllocation tbm ''default'' = 0"
    by (rule default_allocation[OF assms])
  have b: "TruncateToTokenLimit U tbm t ''default'' = ([], 0)" for t
    by (simp add: TruncateToTokenLimit_def a)
  have c: "TruncateToLimit U m t limit = ([], 0)" if "tokenBudget m = Some tbm" for m t
    using that by (simp add: TruncateToLimit_def b)
  have d: "fst (GetSummaryWithTokenLimit U decode ir st limit) = ([], 0)"
    if "tokenBudget (base ir) = Some tbm"
  proof -
    obtain summary ir1 where g: "GetSummary decode ir st = (summary, ir1)"
      by (cases "GetSummary decode ir st")
    have "tokenBudget (base ir1) = Some tbm"
      using GetSummary_tokenBudget[of decode ir st] g that by simp
    then show ?thesis
      by (simp add: GetSummaryWithTokenLimit_def g c)
  qed
  from a b c d show ?thesis by blast
qed


lemma Count_Nil: "Count U c [] = 0"
  by (simp add: Count_def)

text \<open>The same at the default manager with budget 100, a file manager carrying it, and an
  index with one chapter summary, read with ceiling 1000.\<close>

theorem default_component_witness:
  "NewTokenBudgetManager 100 None = Inr manager100 \<and>
   GetTokenAllocation manager100 ''default'' = 0 \<and>
   TruncateToTokenLimit ascii_tables manager100 [0x61, 0x20, 0x62] ''default'' = ([], 0) \<and>
   tokenBudget (SetTokenBudget (NewBaseFileManager ''index.json'') manager100) = Some manager100 \<and>
   TruncateToLimit ascii_tables (SetTokenBudget (NewBaseFileManager ''index.json'') manager100)
     [0x61, 0x20, 0x62] 1000 = ([], 0) \<and>
   tokenBudget (base \<lparr> base = SetTokenBudget (NewBaseFileManager ''index.json'') manager100,
                        indexData = Some \<lparr> Summaries =
                          [\<lparr> ChapterID = [0x31], Title = [0x74], Summary = [0x61, 0x20, 0x62] \<rparr>] \<rparr> \<rparr>)
     = Some manager100 \<and>
   fst (GetSummaryWithTokenLimit ascii_tables (\<lambda>content. None)
          \<lparr> base = SetTokenBudget (NewBaseFileManager ''index.json'') manager100,
            indexData = Some \<lparr> Summaries =
              [\<lparr> ChapterID = [0x31], Title = [0x74], Summary = [0x61, 0x20, 0x62] \<rparr>] \<rparr> \<rparr>
          \<lparr> blob = None, readFails = False, mkdirFails = False, writeFails = False,
            clock = 1 \<rparr> 1000) = ([], 0)"
proof -
  have b: "tokenBudget (SetTokenBudget (NewBaseFileManager ''index.json'') manager100) =
             Some manager100"
    by (simp add: SetTokenBudget_def)
  show ?thesis
    using default_component_truncates_to_nothing [OF NewTokenBudgetManager_default]
      NewTokenBudgetManager_default b
    by simp
qed

text \<open>
  Claim C7 (as amended). If the estimate of the text is within the component's ceiling and
  the ceiling is positive (or the text is empty), \<open>TruncateToTokenLimit\<close> returns the text
  unchanged together with its estimate. When the ceiling is \<open>\<le> 0\<close> the result is the
  empty string with 0 tokens, also for a text whose estimate is 0.
\<close>

theorem TruncateToTokenLimit_idempotent:
  "(Count U (counter tbm) s \<le> GetTokenAllocation tbm component \<and>
    (s = [] \<or> 0 < GetTokenAllocation tbm component)
      \<longrightarrow> TruncateToTokenLimit U tbm s component = (s, Count U (counter tbm) s)) \<and>
   (GetTokenAllocation tbm component \<le> 0
      \<longrightarrow> TruncateToTokenLimit U tbm s component = ([], 0))"
  by (auto simp: TruncateToTokenLimit_def Let_def Count_Nil)

lemma halves_allocation:
  "GetAllocatedTokens (manager_halves 10) =
     [(''plan'', 5), (''character'', 0), (''worldview'', 0), (''chapters'', 5), (''index'', 0)]"
  by (simp add: GetAllocatedTokens_def AllocateTokens_def initialAllocation_def manager_halves_def
      NewTokenBudget_def ToMap_def halves_def go_int_def floor_rat_numeral)

lemma Count_a: "Count ascii_tables NewSimpleTokenCounter [0x61] = 0"
  by (simp add: count_eval Fields_def isSpace_def)

text \<open>
  Counterexample to claim C7 as stated: with budget 10 split between plan and chapters, the
  worldview ceiling is 0; the text \<open>"a"\<close> estimates to 0, which is within the ceiling,
  yet the result is the empty string, not \<open>"a"\<close>.
\<close>

theorem TruncateToTokenLimit_zero_ceiling_counterexample:
  "NewTokenBudgetManager 10 (Some halves) = Inr (manager_halves 10) \<and>
   GetTokenAllocation (manager_halves 10) ''worldview'' = 0 \<and>
   Count ascii_tables (counter (manager_halves 10)) [0x61] = 0 \<and>
   TruncateToTokenLimit ascii_tables (manager_halves 10) [0x61] ''worldview'' = ([], 0)"
proof -
  have c: "Count ascii_tables (counter (manager_halves 10)) [0x61] = 0"
    using Count_a by (simp add: manager_halves_def)
  have w: "GetTokenAllocation (manager_halves 10) ''worldview'' = 0"
    by (simp add: GetTokenAllocation_def halves_allocation)
  have t: "TruncateToTokenLimit ascii_tables (manager_halves 10) [0x61] ''worldview'' = ([], 0)"
    by (simp add: TruncateToTokenLimit_def w)
  show ?thesis
    by (simp add: NewTokenBudgetManager_halves c w t)
qed

lemma halves_allocation_100:
  "GetAllocatedTokens (manager_halves 100) =
     [(''plan'', 50), (''character'', 0), (''worldview'', 0), (''chapters'', 50), (''index'', 0)]"
  by (simp add: GetAllocatedTokens_def AllocateTokens_def initialAllocation_def manager_halves_def
      NewTokenBudget_def ToMap_def halves_def go_int_def floor_rat_numeral)

text \<open>Both halves of the amended claim at budget 10: the text \<open>"a"\<close> under the plan
  ceiling 5 and under the index ceiling 0.\<close>

theorem TruncateToTokenLimit_idempotent_witness:
  "(Count ascii_tables (counter (manager_halves 10)) [0x61] \<le>
       GetTokenAllocation (manager_halves 10) ''plan'' \<and>
    ([0x61] = ([] :: nat list) \<or> 0 < GetTokenAllocation (manager_halves 10) ''plan'')) \<and>
   TruncateToTokenLimit ascii_tables (manager_halves 10) [0x61] ''plan'' = ([0x61], 0) \<and>
   GetTokenAllocation (manager_halves 10) ''index'' \<le> 0 \<and>
   TruncateToTokenLimit ascii_tables (manager_halves 10) [0x61] ''index'' = ([], 0)"
proof -
  have c: "Count ascii_tables (counter (manager_halves 10)) [0x61] = 0"
    using Count_a by (simp add: manager_halves_def)
  have p: "GetTokenAllocation (manager_halves 10) ''plan'' = 5"
    by (simp add: GetTokenAllocation_def halves_allocation)
  have i: "GetTokenAllocation (manager_halves 10) ''index'' = 0"
    by (simp add: GetTokenAllocation_def halves_allocation)
  show ?thesis
    using TruncateToTokenLimit_idempotent [of ascii_tables "manager_halves 10" "[0x61]" "''plan''"]
      TruncateToTokenLimit_idempotent [of ascii_tables "manager_halves 10" "[0x61]" "''index''"]
    by (simp add: c p i)
qed

section \<open>Properties of the allocator\<close>
























section \<open>The CJK scenario\<close>


lemma isChinese_not_space: "isChinese r \<Longrightarrow> \<not> isSpace r"
  by (auto simp: isChinese_def isSpace_def)

lemma isChinese_not_newline: "isChinese r \<Longrightarrow> r \<noteq> 0x0A"
  by (auto simp: isChinese_def)

lemma fields_from_no_space:
  "\<forall>r \<in> set s. \<not> isSpace r \<Longrightarrow> fields_from w s = (if w @ s = [] then [] else [w @ s])"
  by (induction s arbitrary: w) auto

lemma Fields_no_space: "\<forall>r \<in> set s. \<not> isSpace r \<Longrightarrow> s \<noteq> [] \<Longrightarrow> Fields s = [s]"
  by (simp add: Fields_def fields_from_no_space)

lemma split_from_no_newline: "\<forall>r \<in> set s. r \<noteq> 0x0A \<Longrightarrow> split_from cur s = [cur @ s]"
  by (induction s arbitrary: cur) auto

lemma SplitLines_no_newline: "\<forall>r \<in> set s. r \<noteq> 0x0A \<Longrightarrow> SplitLines s = [s]"
  by (simp add: SplitLines_def split_from_no_newline)

lemma isChineseWord_all: "\<forall>r \<in> set s. isChinese r \<Longrightarrow> s \<noteq> [] \<Longrightarrow> isChineseWord s"
  by (simp add: isChineseWord_def)

lemma Count_all_chinese:
  assumes "\<forall>r \<in> set s. isChinese r"
  shows "Count U NewSimpleTokenCounter s = (3 * int (length s)) div 2"
proof (cases "s = []")
  case True
  then show ?thesis by (simp add: Count_def)
next
  case False
  have f: "Fields s = [s]"
    using assms False by (intro Fields_no_space) (auto dest: isChinese_not_space)
  have "\<lfloor>(of_int (int (length s)) :: rat) * (3 / 2)\<rfloor> = (3 * int (length s)) div 2"
    by (metis (no_types) floor_divide_of_int_eq mult.commute of_int_mult of_int_numeral
        times_divide_eq_left)
  with False show ?thesis
    by (simp add: Count_def f count_word_def isChineseWord_all[OF assms False]
        NewSimpleTokenCounter_def go_int_def)
qed

lemma Count_take_chinese:
  assumes "\<forall>r \<in> set s. isChinese r"
  shows "Count U NewSimpleTokenCounter (take k s) = (3 * int (min k (length s))) div 2"
proof -
  have "\<forall>r \<in> set (take k s). isChinese r"
    using assms by (auto dest: in_set_takeD)
  from Count_all_chinese[OF this] show ?thesis by (simp add: min.commute)
qed

declare char_search.simps [simp del]

lemma char_search_threshold:
  "(\<forall>k. 1 \<le> k \<longrightarrow> k \<le> n \<longrightarrow> (Count U c (take k runes) \<le> limit \<longleftrightarrow> k \<le> b)) \<Longrightarrow>
   left \<le> b + 1 \<Longrightarrow> b \<le> right \<Longrightarrow> right \<le> n \<Longrightarrow> bestEnd = left - 1 \<Longrightarrow>
   char_search U c runes limit left right bestEnd = b"
proof (induction U c runes limit left right bestEnd rule: char_search.induct)
  case (1 U c runes limit left right bestEnd)
  let ?mid = "(left + right) div 2"
  note thr = "1.prems"(1)
  show ?case
  proof (cases "left \<le> right")
    case False
    with "1.prems" show ?thesis by (simp add: char_search.simps[of _ _ _ _ left])
  next
    case lr: True
    show ?thesis
    proof (cases "?mid = 0")
      case True
      with lr "1.prems" "1.IH"(1)[OF lr True thr] show ?thesis
        by (subst char_search.simps) simp
    next
      case m0: False
      with lr "1.prems" have mid: "1 \<le> ?mid" "?mid \<le> n" by auto
      show ?thesis
      proof (cases "Count U c (take ?mid runes) \<le> limit")
        case True
        with thr mid have "?mid \<le> b" by blast
        with lr m0 True "1.prems" "1.IH"(2)[OF lr m0 True thr] show ?thesis
          by (subst char_search.simps) simp
      next
        case False
        with thr mid have "b < ?mid" by (meson not_le)
        with lr m0 False "1.prems" "1.IH"(3)[OF lr m0 False thr] show ?thesis
          by (subst char_search.simps) simp
      qed
    qed
  qed
qed


lemma cjk_text_chinese: "\<forall>r \<in> set cjk_text. isChinese r"
  by (auto simp: cjk_text_def cjk_phrase_def isChinese_def)

lemma cjk_text_length: "length cjk_text = 1200"
  by (simp add: cjk_text_def cjk_phrase_def length_concat sum_list_replicate)

lemma cjk_text_not_Nil: "cjk_text \<noteq> []"
  using cjk_text_length by auto

lemma cjk_text_Count: "Count U NewSimpleTokenCounter cjk_text = 1800"
  by (simp add: Count_all_chinese[OF cjk_text_chinese] cjk_text_length)

lemma cjk_text_lines: "SplitLines cjk_text = [cjk_text]"
  using cjk_text_chinese by (intro SplitLines_no_newline) (auto dest: isChinese_not_newline)

lemma cjk_text_fields: "Fields cjk_text = [cjk_text]"
  using cjk_text_chinese cjk_text_not_Nil
  by (intro Fields_no_space) (auto dest: isChinese_not_space)

lemma cjk_truncateText:
  assumes "counter tbm = NewSimpleTokenCounter"
  shows "truncateText U tbm cjk_text 50 = ([], 0)"
  by (simp add: truncateText_def cjk_text_lines assms cjk_text_Count truncateLineByTokens_def
      cjk_text_fields)

lemma cjk_char_search:
  "char_search U NewSimpleTokenCounter cjk_text 50 0 (length cjk_text) 0 = 33"
proof (rule char_search_threshold[where n = "length cjk_text"])
  show "\<forall>k. 1 \<le> k \<longrightarrow> k \<le> length cjk_text \<longrightarrow>
          (Count U NewSimpleTokenCounter (take k cjk_text) \<le> 50 \<longleftrightarrow> k \<le> 33)"
    by (auto simp: Count_take_chinese[OF cjk_text_chinese] cjk_text_length min_def)
qed (simp_all add: cjk_text_length)

lemma cjk_take_Count: "Count U NewSimpleTokenCounter (take 33 cjk_text) = 49"
  by (simp add: Count_take_chinese[OF cjk_text_chinese] cjk_text_length)

lemma cjk_take_not_Nil: "take 33 cjk_text \<noteq> []"
  using cjk_text_length by auto

lemma cjk_simpleTokenTruncate:
  assumes "tokenCounter bfm = NewSimpleTokenCounter"
  shows "simpleTokenTruncate U bfm cjk_text 50 = (take 33 cjk_text, 49)"
proof -
  have w: "truncateLineByWords U bfm cjk_text 50 = take 33 cjk_text"
    by (simp add: truncateLineByWords_def cjk_text_fields truncateLineByCharacters_def assms
        cjk_char_search)
  show ?thesis
    by (simp add: simpleTokenTruncate_def cjk_text_lines assms cjk_text_Count w cjk_text_not_Nil
        cjk_take_Count Let_def)
qed

text \<open>
  Claim C2. The text is 300 repeats of a four-ideograph phrase (1200 code points, estimate
  1800) and the ceiling is 50, the chapters allocation of a budget of 100 split in halves.
  The budget manager's truncator (\<open>TruncateToTokenLimit\<close>, \<open>truncateText\<close>) has no
  code-point fallback: the single unbroken word overflows, \<open>truncateLineByTokens\<close> keeps
  nothing, and the result is the empty string with 0 tokens. The file manager's own
  truncator (\<open>TruncateToLimit\<close> without a budget attached) does fall through to the binary
  search of \<open>truncateLineByCharacters\<close> and returns the first 33 code points with estimate
  49, the longest prefix within the ceiling (34 code points estimate to 51).
\<close>

theorem cjk_scenario:
  "GetTokenAllocation (manager_halves 100) ''chapters'' = 50 \<and>
   Count U (counter (manager_halves 100)) cjk_text = 1800 \<and>
   TruncateToTokenLimit U (manager_halves 100) cjk_text ''chapters'' = ([], 0) \<and>
   truncateText U (manager_halves 100) cjk_text 50 = ([], 0) \<and>
   TruncateToLimit U (NewBaseFileManager ''chapter.md'') cjk_text 50 = (take 33 cjk_text, 49) \<and>
   Count U NewSimpleTokenCounter (take 33 cjk_text) = 49 \<and>
   Count U NewSimpleTokenCounter (take 34 cjk_text) = 51"
proof -
  have c: "counter (manager_halves 100) = NewSimpleTokenCounter"
    by (simp add: manager_halves_def)
  have a: "GetTokenAllocation (manager_halves 100) ''chapters'' = 50"
    by (simp add: GetTokenAllocation_def halves_allocation_100)
  have t: "truncateText U (manager_halves 100) cjk_text 50 = ([], 0)"
    by (rule cjk_truncateText[OF c])
  have l: "TruncateToTokenLimit U (manager_halves 100) cjk_text ''chapters'' = ([], 0)"
    by (simp add: TruncateToTokenLimit_def a c cjk_text_Count t cjk_text_not_Nil)
  have tc: "tokenCounter (NewBaseFileManager ''chapter.md'') = NewSimpleTokenCounter"
    by (simp add: NewBaseFileManager_def)
  have tb: "tokenBudget (NewBaseFileManager ''chapter.md'') = None"
    by (simp add: NewBaseFileManager_def)
  have s: "TruncateToLimit U (NewBaseFileManager ''chapter.md'') cjk_text 50 =
             (take 33 cjk_text, 49)"
    using cjk_simpleTokenTruncate[OF tc, of U]
    by (simp add: TruncateToLimit_def tc tb cjk_text_Count)
  have n: "Count U NewSimpleTokenCounter (take 34 cjk_text) = 51"
    by (simp add: Count_take_chinese[OF cjk_text_chinese] cjk_text_length)
  show ?thesis
    by (simp add: a c cjk_text_Count t l s cjk_take_Count n)
qed

section \<open>Properties of the content store\<close>


text \<open>
  Claim C8 (as amended). If the backing file exists and can be read, and its modification
  time is strictly newer than the cached one or the cached text is empty (nothing loaded
  yet), then \<open>GetCurrent\<close> returns the file's content with leading and trailing
  whitespace trimmed, and the record now caches that text and the file's modification
  time.
\<close>

theorem GetCurrent_reloads:
  "blob st = Some (data, t) \<and> \<not> readFails st \<and> (lastModTime bfm < t \<or> current bfm = [])
     \<longrightarrow> GetCurrent bfm st =
           (TrimSpace data, bfm\<lparr>current := TrimSpace data, lastModTime := t\<rparr>)"
  by (auto simp: GetCurrent_def IsModified_def GetModTime_def Stat_def Load_def Exists_def Let_def)

lemma TrimSpace_new: "TrimSpace [0x6E, 0x65, 0x77, 0x0A] = [0x6E, 0x65, 0x77]"
  by (simp add: TrimSpace_def isSpace_def)

text \<open>
  Counterexample to claim C8 as stated. The cache holds \<open>"old"\<close> from time 1 and the file
  was rewritten from outside to \<open>"new\n"\<close> at time 2. \<open>GetCurrent\<close> returns \<open>"new"\<close>, not
  the stored \<open>"new\n"\<close>; and when the rewritten file cannot be read it returns the cached
  \<open>"old"\<close>.
\<close>

theorem GetCurrent_counterexample:
  "blob storage_new = Some ([0x6E, 0x65, 0x77, 0x0A], 2) \<and> lastModTime cached_old < 2 \<and>
   fst (GetCurrent cached_old storage_new) = [0x6E, 0x65, 0x77] \<and>
   blob storage_unreadable = Some ([0x6E, 0x65, 0x77, 0x0A], 2) \<and>
   fst (GetCurrent cached_old storage_unreadable) = [0x6F, 0x6C, 0x64]"
  by (simp add: GetCurrent_def IsModified_def GetModTime_def Stat_def Load_def Exists_def Let_def
      storage_new_def storage_unreadable_def cached_old_def NewBaseFileManager_def TrimSpace_new)

text \<open>
  The reload theorem at the stale record above and at a freshly created manager.
\<close>

theorem GetCurrent_reloads_witness:
  "(blob storage_new = Some ([0x6E, 0x65, 0x77, 0x0A], 2) \<and> \<not> readFails storage_new \<and>
    (lastModTime cached_old < 2 \<or> current cached_old = [])) \<and>
   GetCurrent cached_old storage_new =
     (TrimSpace [0x6E, 0x65, 0x77, 0x0A],
      cached_old\<lparr>current := TrimSpace [0x6E, 0x65, 0x77, 0x0A], lastModTime := 2\<rparr>) \<and>
   (blob storage_new = Some ([0x6E, 0x65, 0x77, 0x0A], 2) \<and> \<not> readFails storage_new \<and>
    (lastModTime (NewBaseFileManager ''worldview.md'') < 2 \<or>
     current (NewBaseFileManager ''worldview.md'') = [])) \<and>
   fst (GetCurrent (NewBaseFileManager ''worldview.md'') storage_new) = [0x6E, 0x65, 0x77]"
proof -
  have h: "blob storage_new = Some ([0x6E, 0x65, 0x77, 0x0A], 2)" "\<not> readFails storage_new"
    by (simp_all add: storage_new_def)
  have c: "lastModTime cached_old < 2"
    by (simp add: cached_old_def)
  have n: "current (NewBaseFileManager ''worldview.md'') = []"
    by (simp add: NewBaseFileManager_def)
  show ?thesis
    using GetCurrent_reloads [of storage_new "[0x6E, 0x65, 0x77, 0x0A]" 2 cached_old]
      GetCurrent_reloads [of storage_new "[0x6E, 0x65, 0x77, 0x0A]" 2
        "NewBaseFileManager ''worldview.md''"]
    by (simp add: h c n TrimSpace_new)
qed

text \<open>
  Claim C9. \<open>Update\<close> writes to storage first. If the directory creation or the write
  fails, an error is returned and the manager is exactly as it was, cached text and cached
  modification time included. If both succeed, no error is returned, storage holds the new
  text, and the cache holds the new text with the modification time of the written file.
\<close>

theorem Update_atomic:
  "(mkdirFails st \<or> writeFails st \<longrightarrow>
      (\<exists>e. fst (Update bfm st content) = Some e) \<and>
      fst (snd (Update bfm st content)) = bfm) \<and>
   (\<not> mkdirFails st \<and> \<not> writeFails st \<longrightarrow>
      fst (Update bfm st content) = None \<and>
      blob (snd (snd (Update bfm st content))) = Some (content, clock st) \<and>
      fst (snd (Update bfm st content)) = bfm\<lparr>current := content, lastModTime := clock st\<rparr>)"
  by (simp add: Update_def Save_def Stat_def Let_def)

text \<open>
  Both cases at the record caching \<open>"old"\<close>: an update to \<open>"x"\<close> on a location that
  refuses writes, and the same update on a writable location.
\<close>

theorem Update_atomic_witness:
  "(mkdirFails storage_readonly \<or> writeFails storage_readonly) \<and>
   fst (Update cached_old storage_readonly [0x78]) = Some FileWriteError \<and>
   current (fst (snd (Update cached_old storage_readonly [0x78]))) = [0x6F, 0x6C, 0x64] \<and>
   lastModTime (fst (snd (Update cached_old storage_readonly [0x78]))) = 1 \<and>
   (\<not> mkdirFails storage_new \<and> \<not> writeFails storage_new) \<and>
   fst (Update cached_old storage_new [0x78]) = None \<and>
   blob (snd (snd (Update cached_old storage_new [0x78]))) = Some ([0x78], 3) \<and>
   current (fst (snd (Update cached_old storage_new [0x78]))) = [0x78] \<and>
   lastModTime (fst (snd (Update cached_old storage_new [0x78]))) = 3"
proof -
  have r: "writeFails storage_readonly"
    by (simp add: storage_readonly_def)
  have w: "\<not> mkdirFails storage_new" "\<not> writeFails storage_new" "clock storage_new = 3"
    by (simp_all add: storage_new_def)
  have e: "fst (Update cached_old storage_readonly [0x78]) = Some FileWriteError"
    by (simp add: Update_def Save_def storage_readonly_def storage_new_def)
  have o: "current cached_old = [0x6F, 0x6C, 0x64]" "lastModTime cached_old = 1"
    by (simp_all add: cached_old_def)
  show ?thesis
    using Update_atomic [of storage_readonly cached_old "[0x78]"]
      Update_atomic [of storage_new cached_old "[0x78]"]
    by (simp add: r w e o)
qed

section \<open>Properties of the assembler\<close>













end
